theory Spec2Isabelle
  imports Main "HOL-Library.AList"
begin

section \<open>Text\<close>

text \<open>
  The program is \<^verbatim>\<open>chatbot.py\<close>. A Python \<^verbatim>\<open>str\<close> is modelled as a
  \<open>string\<close>, one \<open>char\<close> per code point, and the character classes below are
  the ones CPython uses for code points below 128: \<^verbatim>\<open>str.isspace\<close> (also what
  \<^verbatim>\<open>\s\<close> and \<^verbatim>\<open>str.strip()\<close> test) holds for 9..13, 28..31 and 32;
  \<^verbatim>\<open>\w\<close> holds for digits, letters and the underscore; \<^verbatim>\<open>str.lower\<close>
  maps A..Z to a..z. Code points from 128 on are left alone by \<open>to_lower\<close> and are in
  neither class, so the development is about ASCII text.
\<close>

definition is_space :: "char \<Rightarrow> bool" where
  "is_space c = (let n = (of_char c :: nat) in (9 \<le> n \<and> n \<le> 13) \<or> (28 \<le> n \<and> n \<le> 32))"

definition is_word :: "char \<Rightarrow> bool" where
  "is_word c = (let n = (of_char c :: nat) in
     (48 \<le> n \<and> n \<le> 57) \<or> (65 \<le> n \<and> n \<le> 90) \<or> n = 95 \<or> (97 \<le> n \<and> n \<le> 122))"

definition to_lower :: "char \<Rightarrow> char" where
  "to_lower c = (let n = (of_char c :: nat) in if 65 \<le> n \<and> n \<le> 90 then char_of (n + 32) else c)"

definition lower :: "string \<Rightarrow> string" where
  "lower s = map to_lower s"

definition strip :: "string \<Rightarrow> string" where
  "strip s = rev (dropWhile is_space (rev (dropWhile is_space s)))"



section \<open>Memory: the key normalizer and the fact store\<close>

text \<open>
  \<^verbatim>\<open>re.sub(r"[^\w\s-]", "", (k or "").strip().lower())\<close>: strip first, lower-case,
  then delete every character that is not a word character, whitespace or a hyphen.
  On a \<^verbatim>\<open>str\<close> the \<^verbatim>\<open>k or ""\<close> is the identity.
\<close>

definition kept_char :: "char \<Rightarrow> bool" where
  "kept_char c = (is_word c \<or> is_space c \<or> c = CHR ''-'')"

definition normalize_key :: "string \<Rightarrow> string" where
  "normalize_key k = filter kept_char (lower (strip k))"

text \<open>
  The cache is a dict of dicts, \<^verbatim>\<open>user_id -> key -> value\<close>. A Python dict keeps
  insertion order (the prompt of \<open>chat\<close> lists the facts in it), so both levels are
  association lists with distinct keys: \<open>map_of\<close> is \<^verbatim>\<open>d.get\<close>, and
  \<open>AList.update\<close> is \<^verbatim>\<open>d[k] = v\<close> (in place for a key that is there, at the
  end for a new one).

  \<^verbatim>\<open>json.loads\<close> and \<^verbatim>\<open>json.dumps\<close> are library code and are parameters.
  For the fact file, \<open>loads\<close> gives \<open>None\<close> where Python raises
  \<^verbatim>\<open>JSONDecodeError\<close>, and a text that parses is taken to have the layout
  \<open>save_all\<close> writes, an object of objects of strings.
\<close>

type_synonym facts = "(string \<times> string) list"
type_synonym memory = "(string \<times> facts) list"

definition load_all :: "(string \<Rightarrow> memory option) \<Rightarrow> string option \<Rightarrow> memory" where
  "load_all loads data_path =
     (case data_path of
        None \<Rightarrow> []
      | Some txt \<Rightarrow> (case loads txt of None \<Rightarrow> [] | Some obj \<Rightarrow> obj))"

definition save_all :: "(memory \<Rightarrow> string) \<Rightarrow> memory \<Rightarrow> string option" where
  "save_all dumps obj = Some (dumps obj)"

text \<open>The store object together with the file \<^verbatim>\<open>data/memory.json\<close> it flushes to
  (\<open>None\<close>: the file does not exist).\<close>

record store =
  cache :: memory
  data_file :: "string option"

definition MemoryStore :: "(string \<Rightarrow> memory option) \<Rightarrow> string option \<Rightarrow> store" where
  "MemoryStore loads data_path = \<lparr>cache = load_all loads data_path, data_file = data_path\<rparr>"

text \<open>\<^verbatim>\<open>self._cache.get(user_id, {})\<close>\<close>

definition user_facts :: "memory \<Rightarrow> string \<Rightarrow> facts" where
  "user_facts c user_id = (case map_of c user_id of None \<Rightarrow> [] | Some m \<Rightarrow> m)"

definition remember :: "(memory \<Rightarrow> string) \<Rightarrow> store \<Rightarrow> string \<Rightarrow> string \<Rightarrow> string \<Rightarrow> store" where
  "remember dumps st user_id key val =
     (let key_n = normalize_key key;
          user_mem = user_facts (cache st) user_id;
          cache' = AList.update user_id (AList.update key_n (strip val) user_mem) (cache st)
      in \<lparr>cache = cache', data_file = save_all dumps cache'\<rparr>)"

definition recall :: "store \<Rightarrow> string \<Rightarrow> string \<Rightarrow> string option" where
  "recall st user_id key = map_of (user_facts (cache st) user_id) (normalize_key key)"

definition list_facts :: "store \<Rightarrow> string \<Rightarrow> facts" where
  "list_facts st user_id = user_facts (cache st) user_id"


section \<open>The intent patterns\<close>
















section \<open>The event log\<close>

text \<open>
  A value that \<^verbatim>\<open>json.loads\<close> returns. An object is an association list with
  distinct keys; the program passes numbers on without looking at them, so an integer
  stands for every number; \<open>JNull\<close> is also Python's \<^verbatim>\<open>None\<close>, which \<^verbatim>\<open>rec.get\<close>
  gives for a key that is not there.
\<close>

datatype json = JNull | JBool bool | JNum int | JStr string | JArr "json list"
  | JObj "(string \<times> json) list"













section \<open>The chat request\<close>










section \<open>What the log operations are to compute\<close>













section \<open>Auxiliary notions for the statements\<close>




section \<open>Properties of the normalizer and the fact store\<close>












lemma map_of_user_facts_remember:
  "map_of (user_facts (cache (remember dumps st u k v)) u') k' =
     (if u' = u \<and> k' = normalize_key k then Some (strip v)
      else map_of (user_facts (cache st) u') k')"
  by (simp add: remember_def user_facts_def Let_def update_conv')

lemma user_facts_remember_other:
  "u' \<noteq> u \<Longrightarrow> user_facts (cache (remember dumps st u k v)) u' = user_facts (cache st) u'"
  by (simp add: remember_def user_facts_def Let_def update_conv')








text \<open>
  C7. Last write wins: after two \<open>remember\<close> calls for the same user and raw key, from
  any store, \<open>recall\<close> gives the second value (stripped, as \<open>remember\<close> stores it); for
  "city", "A", "B" it gives "B".
\<close>

theorem last_write_wins:
  "recall (remember dumps (remember dumps st u ''city'' ''A'') u ''city'' ''B'') u ''city'' = Some ''B'' \<and>
   recall (remember dumps (remember dumps st u k a) u k b) u k = Some (strip b)"
proof -
  have g: "\<And>k a b. recall (remember dumps (remember dumps st u k a) u k b) u k = Some (strip b)"
    by (simp add: recall_def map_of_user_facts_remember)
  have s: "strip ''B'' = ''B''" by code_simp
  show ?thesis using g[of "''city''" "''A''" "''B''"] g s by simp
qed

theorem last_write_wins_witness:
  "recall (remember (\<lambda>m. []) (remember (\<lambda>m. []) (MemoryStore (\<lambda>t. None) None) ''u'' ''city'' ''A'')
     ''u'' ''city'' ''B'') ''u'' ''city'' = Some ''B''"
  using last_write_wins[of "\<lambda>m. []" "MemoryStore (\<lambda>t. None) None" "''u''"] by blast

text \<open>
  C8. Isolation: a \<open>remember\<close> for user \<open>u1\<close> leaves the fact map and every recall
  of another user \<open>u2\<close> as they were; on a store built over a missing fact file,
  \<^verbatim>\<open>recall(u2, "x")\<close> is still absent after \<^verbatim>\<open>remember(u1, "x", "1")\<close>.
\<close>

theorem remember_isolation:
  assumes "u1 \<noteq> u2"
  shows "list_facts (remember dumps st u1 k v) u2 = list_facts st u2 \<and>
         recall (remember dumps st u1 k v) u2 k' = recall st u2 k' \<and>
         recall (remember dumps (MemoryStore loads None) u1 ''x'' ''1'') u2 ''x'' = None"
proof -
  from assms have o: "\<And>st k v. user_facts (cache (remember dumps st u1 k v)) u2 = user_facts (cache st) u2"
    by (simp add: user_facts_remember_other)
  have e: "user_facts (cache (MemoryStore loads None)) u2 = []"
    by (simp add: MemoryStore_def load_all_def user_facts_def)
  show ?thesis by (simp add: list_facts_def recall_def o e)
qed

theorem remember_isolation_witness:
  "''u1'' \<noteq> ''u2'' \<and>
   list_facts (remember (\<lambda>m. []) (MemoryStore (\<lambda>t. None) None) ''u1'' ''x'' ''1'') ''u2'' = [] \<and>
   recall (remember (\<lambda>m. []) (MemoryStore (\<lambda>t. None) None) ''u1'' ''x'' ''1'') ''u2'' ''x'' = None \<and>
   recall (remember (\<lambda>m. []) (MemoryStore (\<lambda>t. None) None) ''u1'' ''x'' ''1'') ''u1'' ''x'' = Some ''1''"
proof -
  have d: "''u1'' \<noteq> ''u2''" by simp
  have l: "list_facts (MemoryStore (\<lambda>t. None) None) ''u2'' = []"
    by (simp add: list_facts_def MemoryStore_def load_all_def user_facts_def)
  have r: "recall (remember (\<lambda>m. []) (MemoryStore (\<lambda>t. None) None) ''u1'' ''x'' ''1'') ''u1'' ''x'' = Some ''1''"
    by code_simp
  from remember_isolation[OF d, of "\<lambda>m. []" "MemoryStore (\<lambda>t. None) None" "''x''" "''1''" "''x''" "\<lambda>t. None"]
  have "list_facts (remember (\<lambda>m. []) (MemoryStore (\<lambda>t. None) None) ''u1'' ''x'' ''1'') ''u2'' = []
      \<and> recall (remember (\<lambda>m. []) (MemoryStore (\<lambda>t. None) None) ''u1'' ''x'' ''1'') ''u2'' ''x'' = None"
    by (metis l)
  with d r show ?thesis by blast
qed






section \<open>Properties of the event log\<close>










section \<open>Properties of the intent patterns and of chat\<close>


















end
